theory Spec2Isabelle
  imports Complex_Main
begin

unbundle bit_operations_syntax

section \<open>Python values used by the command-line front end\<close>

text \<open>
  The development follows \<^verbatim>\<open>src/opendrop/cli.py\<close>: the receiver lookup
  \<^verbatim>\<open>AirDropCli._get_receiver_info\<close> and the per-peer probe
  \<^verbatim>\<open>AirDropCli._send_discover\<close>. A Python \<^verbatim>\<open>str\<close> is a
  \<^typ>\<open>string\<close> whose characters are code points below 256, so \<^const>\<open>length\<close> is
  Python's \<^verbatim>\<open>len\<close>; a \<^verbatim>\<open>bytes\<close> value is a \<^typ>\<open>string\<close> of bytes.
  Python's integers are \<^typ>\<open>int\<close>.
\<close>

datatype exn = ValueError | TypeError

subsection \<open>The built-in \<^verbatim>\<open>int()\<close> on text\<close>

text \<open>
  \<^verbatim>\<open>int(s)\<close> in base ten strips white space at both ends, reads an optional sign and
  then decimal digits, where one underscore may stand between two digits. Anything else
  raises \<^verbatim>\<open>ValueError\<close>, which is \<^const>\<open>None\<close> here. For a \<^verbatim>\<open>str\<close> the
  white space below code point 256 is tab to carriage return, space, U+0085 and U+00A0; for
  \<^verbatim>\<open>bytes\<close> only the first six count. The interpreter's cap on the number of digits
  is left out.
\<close>

definition str_isspace :: "char \<Rightarrow> bool" where
  "str_isspace c \<longleftrightarrow> (of_char c :: nat) \<in> {9, 10, 11, 12, 13, 32, 133, 160}"

definition bytes_isspace :: "char \<Rightarrow> bool" where
  "bytes_isspace c \<longleftrightarrow> (of_char c :: nat) \<in> {9, 10, 11, 12, 13, 32}"

definition isdigit :: "char \<Rightarrow> bool" where
  "isdigit c \<longleftrightarrow> 48 \<le> (of_char c :: nat) \<and> (of_char c :: nat) \<le> 57"

definition digit_value :: "char \<Rightarrow> int" where
  "digit_value c = int (of_char c) - 48"

fun digits_value :: "string \<Rightarrow> int \<Rightarrow> int option" where
  "digits_value [] acc = Some acc"
| "digits_value (c # cs) acc =
     (if isdigit c then digits_value cs (10 * acc + digit_value c)
      else if c = CHR ''_'' then
        (case cs of
           [] \<Rightarrow> None
         | d # ds \<Rightarrow> if isdigit d then digits_value ds (10 * acc + digit_value d) else None)
      else None)"

definition unsigned_value :: "string \<Rightarrow> int option" where
  "unsigned_value s =
     (case s of
        [] \<Rightarrow> None
      | c # cs \<Rightarrow> if isdigit c then digits_value cs (digit_value c) else None)"

definition strip :: "(char \<Rightarrow> bool) \<Rightarrow> string \<Rightarrow> string" where
  "strip sp s = rev (dropWhile sp (rev (dropWhile sp s)))"

definition int_of_text :: "(char \<Rightarrow> bool) \<Rightarrow> string \<Rightarrow> int option" where
  "int_of_text sp s =
     (case strip sp s of
        [] \<Rightarrow> None
      | c # cs \<Rightarrow>
          if c = CHR ''-'' then map_option uminus (unsigned_value cs)
          else if c = CHR ''+'' then unsigned_value cs
          else unsigned_value (c # cs))"

definition py_int :: "string \<Rightarrow> int option" where
  "py_int = int_of_text str_isspace"

definition py_int_bytes :: "string \<Rightarrow> int option" where
  "py_int_bytes = int_of_text bytes_isspace"

subsection \<open>The built-in \<^verbatim>\<open>str()\<close> on integers\<close>

definition digit_char :: "nat \<Rightarrow> char" where
  "digit_char d = ''0123456789'' ! d"

fun str_nat :: "nat \<Rightarrow> string" where
  "str_nat n = (if n < 10 then [digit_char n] else str_nat (n div 10) @ [digit_char (n mod 10)])"

declare str_nat.simps [simp del]

definition py_str :: "int \<Rightarrow> string" where
  "py_str i = (if i < 0 then CHR ''-'' # str_nat (nat (- i)) else str_nat (nat i))"

subsection \<open>List subscription\<close>

text \<open>
  \<^verbatim>\<open>xs[n]\<close>: a negative \<^verbatim>\<open>n\<close> counts from the end, and a position outside the list
  raises \<^verbatim>\<open>IndexError\<close> (\<^const>\<open>None\<close>).
\<close>

definition py_index :: "'a list \<Rightarrow> int \<Rightarrow> 'a option" where
  "py_index xs n =
     (let len = int (length xs); k = (if n < 0 then n + len else n)
      in if 0 \<le> k \<and> k < len then Some (xs ! nat k) else None)"

section \<open>The discovery report\<close>

text \<open>
  One entry of the report is the dictionary \<^verbatim>\<open>node_info\<close> that
  \<^verbatim>\<open>_send_discover\<close> builds; \<^verbatim>\<open>find\<close> dumps the list of them as JSON and
  \<^verbatim>\<open>_get_receiver_info\<close> loads it back. The key \<^verbatim>\<open>"id"\<close> is the field
  \<open>id_field\<close>; \<^verbatim>\<open>"name"\<close> is \<^verbatim>\<open>None\<close> or a string.
\<close>

record PeerRecord =
  name :: "string option"
  address :: string
  port :: int
  id_field :: string
  flags :: int
  discoverable :: bool

text \<open>
  A service record is what the browser hands to \<^verbatim>\<open>_found_receiver\<close>: the fields
  \<^verbatim>\<open>name\<close>, \<^verbatim>\<open>server\<close>, \<^verbatim>\<open>port\<close> and \<^verbatim>\<open>properties\<close> (bytes to
  bytes) and the result of \<^verbatim>\<open>parsed_addresses()\<close>.
\<close>

record ServiceRecord =
  info_name :: string
  info_server :: string
  info_port :: int
  info_properties :: "string \<rightharpoonup> string"
  parsed_addresses :: "string list"

text \<open>
  One constructor for each call of the logger in the two methods, with the values its
  message is formatted from.
\<close>

datatype log_event =
    Error_no_report
  | Warning_old_report real
  | Error_receiver_not_exist
  | Warning_missing_address ServiceRecord
  | Debug_service_found string string int string
  | Info_found nat string "string option"
  | Debug_not_discoverable string

record report_file =
  mtime :: real
  infos_of :: "PeerRecord list"

section \<open>Receiver lookup\<close>

text \<open>
  \<^verbatim>\<open>self.receiver\<close> starts as the string of the command line. The first tier
  assigns \<^verbatim>\<open>int(self.receiver)\<close> to it before it subscripts the report, so after an
  \<^verbatim>\<open>IndexError\<close> the attribute holds an integer.
\<close>

datatype receiver = Str string | Num int

fun py_len :: "receiver \<Rightarrow> exn + nat" where
  "py_len (Str s) = Inr (length s)"
| "py_len (Num n) = Inl TypeError"

type_synonym lookup = "(exn + PeerRecord option) \<times> log_event list"

text \<open>Lines 373 to 381: the scan by name, and the error message when it finds nothing.\<close>

definition try_hostname :: "receiver \<Rightarrow> PeerRecord list \<Rightarrow> lookup" where
  "try_hostname rcv infos =
     (case find (\<lambda>info. map_option Str (name info) = Some rcv) infos of
        Some info \<Rightarrow> (Inr (Some info), [])
      | None \<Rightarrow> (Inr None, [Error_receiver_not_exist]))"

text \<open>Lines 368 to 372: the scan by identifier, guarded by \<^verbatim>\<open>len(self.receiver) == 12\<close>.\<close>

definition try_id :: "receiver \<Rightarrow> PeerRecord list \<Rightarrow> lookup" where
  "try_id rcv infos =
     (case py_len rcv of
        Inl e \<Rightarrow> (Inl e, [])
      | Inr l \<Rightarrow>
          (case (if l = 12 then find (\<lambda>info. Str (id_field info) = rcv) infos else None) of
             Some info \<Rightarrow> (Inr (Some info), [])
           | None \<Rightarrow> try_hostname rcv infos))"

text \<open>Lines 360 to 381, the three tiers on a loaded report.\<close>

definition resolve :: "string \<Rightarrow> PeerRecord list \<Rightarrow> lookup" where
  "resolve token infos =
     (case py_int token of
        None \<Rightarrow> try_id (Str token) infos
      | Some n \<Rightarrow>
          (case py_index infos n of
             Some info \<Rightarrow> (Inr (Some info), [])
           | None \<Rightarrow> try_id (Num n) infos))"

text \<open>
  The whole of \<^verbatim>\<open>_get_receiver_info\<close>: the report file is absent or holds a
  modification time and a report, \<open>now\<close> is \<^verbatim>\<open>time.time()\<close>. The result is the
  returned value or the exception that escapes, with the log calls made.
\<close>

definition get_receiver_info :: "report_file option \<Rightarrow> real \<Rightarrow> string \<Rightarrow> lookup" where
  "get_receiver_info file now token =
     (case file of
        None \<Rightarrow> (Inr None, [Error_no_report])
      | Some f \<Rightarrow>
          (let age = now - mtime f;
               warned = (if age > 60 then [Warning_old_report age] else []);
               (res, msgs) = resolve token (infos_of f)
           in (res, warned @ msgs)))"

section \<open>The peer probe\<close>

text \<open>
  \<^verbatim>\<open>AirDropClient.send_discover\<close> is outside the sources at hand. It answers with the
  receiver's name or \<^verbatim>\<open>None\<close>, or raises \<^verbatim>\<open>TimeoutError\<close>; the network is a
  function from the endpoint to that outcome. The constant
  \<^verbatim>\<open>AirDropReceiverFlags.SUPPORTS_DISCOVER_MAYBE\<close> is defined in the configuration
  module, also outside; it is the parameter \<open>SDM\<close> of every function that reads it.
\<close>

datatype reply = Timeout | Answer "string option"

type_synonym network = "string \<times> int \<Rightarrow> reply"

text \<open>
  The attributes of the command object that the probe touches: the catalog
  \<^verbatim>\<open>self.discover\<close>, the log, and the endpoints a Discover request went to.
\<close>

record cli =
  discover :: "PeerRecord list"
  logged :: "log_event list"
  sent :: "(string \<times> int) list"

text \<open>Lines 246 to 250: the \<^verbatim>\<open>flags\<close> property, or the default when the key is missing.\<close>

definition get_flags :: "int \<Rightarrow> ServiceRecord \<Rightarrow> exn + int" where
  "get_flags SDM info =
     (case info_properties info ''flags'' of
        None \<Rightarrow> Inr SDM
      | Some v \<Rightarrow> (case py_int_bytes v of None \<Rightarrow> Inl ValueError | Some n \<Rightarrow> Inr n))"

text \<open>Lines 252 to 260: the request goes out only when the flag bit is set.\<close>

definition ask_discover ::
  "int \<Rightarrow> network \<Rightarrow> string \<times> int \<Rightarrow> int \<Rightarrow> cli \<Rightarrow> string option \<times> cli" where
  "ask_discover SDM net endpoint flgs st =
     (if flgs AND SDM \<noteq> 0
      then ((case net endpoint of Timeout \<Rightarrow> None | Answer receiver_name \<Rightarrow> receiver_name),
            st\<lparr>sent := sent st @ [endpoint]\<rparr>)
      else (None, st))"

text \<open>
  Lines 234 to 261. The probe ends early without an address, dies when the flags are not
  a number, and otherwise holds the values that lines 264 to 271 put into
  \<^verbatim>\<open>node_info\<close>; \<^verbatim>\<open>discoverable\<close> is \<^verbatim>\<open>receiver_name is not None\<close>.
\<close>

datatype probed = Dropped | Raised exn | Probed PeerRecord

definition probe :: "int \<Rightarrow> network \<Rightarrow> ServiceRecord \<Rightarrow> cli \<Rightarrow> probed \<times> cli" where
  "probe SDM net info st =
     (case parsed_addresses info of
        [] \<Rightarrow> (Dropped, st\<lparr>logged := logged st @ [Warning_missing_address info]\<rparr>)
      | addr # _ \<Rightarrow>
          (let identifier = takeWhile (\<lambda>c. c \<noteq> CHR ''.'') (info_name info);
               hostname = info_server info;
               prt = info_port info;
               st1 = st\<lparr>logged := logged st @ [Debug_service_found hostname addr prt identifier]\<rparr>
           in case get_flags SDM info of
                Inl e \<Rightarrow> (Raised e, st1)
              | Inr flgs \<Rightarrow>
                  (let (receiver_name, st2) = ask_discover SDM net (addr, prt) flgs st1
                   in (Probed \<lparr>name = receiver_name, address = addr, port = prt,
                         id_field = identifier, flags = flgs,
                         discoverable = (receiver_name \<noteq> None)\<rparr>, st2))))"

text \<open>Lines 274 to 277: the message that goes with the new entry.\<close>

definition found_message :: "nat \<Rightarrow> PeerRecord \<Rightarrow> log_event" where
  "found_message index node_info =
     (if discoverable node_info then Info_found index (id_field node_info) (name node_info)
      else Debug_not_discoverable (id_field node_info))"

text \<open>
  \<^verbatim>\<open>_send_discover\<close> run by one thread with nothing else running: the lock is free
  when it is taken and free again at the end, so it does not show. The result is the
  exception that ends the thread, if any, and the attributes afterwards.
\<close>

definition send_discover :: "int \<Rightarrow> network \<Rightarrow> ServiceRecord \<Rightarrow> cli \<Rightarrow> exn option \<times> cli" where
  "send_discover SDM net info st =
     (case probe SDM net info st of
        (Dropped, st1) \<Rightarrow> (None, st1)
      | (Raised e, st1) \<Rightarrow> (Some e, st1)
      | (Probed node_info, st1) \<Rightarrow>
          (let index = length (discover st1);
               st2 = st1\<lparr>discover := discover st1 @ [node_info]\<rparr>
           in (None, st2\<lparr>logged := logged st2 @ [found_message index node_info]\<rparr>)))"

section \<open>Probes running side by side\<close>

text \<open>
  \<^verbatim>\<open>_found_receiver\<close> starts one thread per service record. A thread is at one of the
  statements of \<^verbatim>\<open>_send_discover\<close> that read or write what the threads share: line
  263 reads the length of the catalog, line 272 takes the lock, line 273 appends, lines
  274 to 277 log, line 278 gives the lock back. Everything before line 263 is one step.
\<close>

datatype pc =
    At_start ServiceRecord
  | At_index PeerRecord
  | At_acquire nat PeerRecord
  | At_append nat PeerRecord
  | At_log nat PeerRecord
  | At_release
  | Returned
  | Died exn

text \<open>One statement of one thread; \<^const>\<open>None\<close> when the thread cannot move.\<close>

fun thread_step :: "int \<Rightarrow> network \<Rightarrow> pc \<Rightarrow> cli \<times> bool \<Rightarrow> (pc \<times> cli \<times> bool) option" where
  "thread_step SDM net (At_start info) (st, lk) =
     (case probe SDM net info st of
        (Dropped, st1) \<Rightarrow> Some (Returned, st1, lk)
      | (Raised e, st1) \<Rightarrow> Some (Died e, st1, lk)
      | (Probed node_info, st1) \<Rightarrow> Some (At_index node_info, st1, lk))"
| "thread_step SDM net (At_index node_info) (st, lk) =
     Some (At_acquire (length (discover st)) node_info, st, lk)"
| "thread_step SDM net (At_acquire index node_info) (st, lk) =
     (if lk then None else Some (At_append index node_info, st, True))"
| "thread_step SDM net (At_append index node_info) (st, lk) =
     Some (At_log index node_info, st\<lparr>discover := discover st @ [node_info]\<rparr>, lk)"
| "thread_step SDM net (At_log index node_info) (st, lk) =
     Some (At_release, st\<lparr>logged := logged st @ [found_message index node_info]\<rparr>, lk)"
| "thread_step SDM net At_release (st, lk) = Some (Returned, st, False)"
| "thread_step SDM net Returned (st, lk) = None"
| "thread_step SDM net (Died e) (st, lk) = None"

record sys =
  attrs :: cli
  lock :: bool
  threads :: "pc list"

definition launch :: "ServiceRecord list \<Rightarrow> cli \<Rightarrow> sys" where
  "launch infos st = \<lparr>attrs = st, lock = False, threads = map At_start infos\<rparr>"

text \<open>The scheduler lets thread \<open>i\<close> run one statement; a thread that cannot move stays.\<close>

definition sched_step :: "int \<Rightarrow> network \<Rightarrow> sys \<Rightarrow> nat \<Rightarrow> sys" where
  "sched_step SDM net s i =
     (if i < length (threads s)
      then (case thread_step SDM net (threads s ! i) (attrs s, lock s) of
              None \<Rightarrow> s
            | Some (p, st, lk) \<Rightarrow> \<lparr>attrs = st, lock = lk, threads = (threads s)[i := p]\<rparr>)
      else s)"

definition run :: "int \<Rightarrow> network \<Rightarrow> nat list \<Rightarrow> sys \<Rightarrow> sys" where
  "run SDM net schedule s = foldl (sched_step SDM net) s schedule"

fun finished :: "pc \<Rightarrow> bool" where
  "finished Returned = True"
| "finished _ = False"

text \<open>
  For counting catalog entries over a run: the statements after line 273, and the threads
  whose service record has an address and readable flags, so that the probe reaches the
  append.
\<close>

fun appended :: "pc \<Rightarrow> bool" where
  "appended (At_log index node_info) = True"
| "appended At_release = True"
| "appended Returned = True"
| "appended _ = False"

fun probes_through :: "int \<Rightarrow> pc \<Rightarrow> bool" where
  "probes_through SDM (At_start info) =
     (parsed_addresses info \<noteq> [] \<and> (case get_flags SDM info of Inl e \<Rightarrow> False | Inr f \<Rightarrow> True))"
| "probes_through SDM (Died e) = False"
| "probes_through SDM _ = True"

definition counted :: "int \<Rightarrow> nat \<Rightarrow> sys \<Rightarrow> bool" where
  "counted SDM n0 s \<longleftrightarrow>
     list_all (probes_through SDM) (threads s) \<and>
     length (discover (attrs s)) = n0 + length (filter appended (threads s))"

text \<open>The indices that the \<^verbatim>\<open>Found index ...\<close> lines of a log report, in order.\<close>

fun reported_index :: "log_event \<Rightarrow> nat option" where
  "reported_index (Info_found index identifier receiver_name) = Some index"
| "reported_index _ = None"

definition reported_indices :: "log_event list \<Rightarrow> nat list" where
  "reported_indices lg = List.map_filter reported_index lg"

section \<open>Sample data\<close>

definition bob :: PeerRecord where
  "bob = \<lparr>name = Some ''Bob'', address = ''fe80::1'', port = 8770,
     id_field = ''aa11bb22cc33'', flags = 1, discoverable = True\<rparr>"

definition peer_A :: ServiceRecord where
  "peer_A = \<lparr>info_name = ''aaaaaaaaaaaa.local'', info_server = ''a.local'', info_port = 8770,
     info_properties = [''flags'' \<mapsto> ''1''], parsed_addresses = [''fe80::1'']\<rparr>"

definition peer_B :: ServiceRecord where
  "peer_B = \<lparr>info_name = ''bbbbbbbbbbbb.local'', info_server = ''b.local'', info_port = 8770,
     info_properties = Map.empty, parsed_addresses = [''fe80::2'']\<rparr>"

definition peer_C :: ServiceRecord where
  "peer_C = \<lparr>info_name = ''cccccccccccc.local'', info_server = ''c.local'', info_port = 8770,
     info_properties = Map.empty, parsed_addresses = [''fe80::3'']\<rparr>"

definition no_address :: ServiceRecord where
  "no_address = peer_B\<lparr>parsed_addresses := []\<rparr>"

definition answering :: "string option \<Rightarrow> network" where
  "answering receiver_name = (\<lambda>endpoint. Answer receiver_name)"

definition silent :: network where
  "silent = (\<lambda>endpoint. Timeout)"

definition fresh_cli :: cli where
  "fresh_cli = \<lparr>discover = [], logged = [], sent = []\<rparr>"

text \<open>
  Two probes that both read the length of the catalog before either appends: thread 0
  and thread 1 each run up to line 263, then each goes through lines 272 to 278.
\<close>

definition both_read_first :: "nat list" where
  "both_read_first = [0, 1, 0, 1, 0, 0, 0, 0, 1, 1, 1, 1]"

section \<open>Facts about \<^verbatim>\<open>int()\<close>, \<^verbatim>\<open>str()\<close> and subscription\<close>

lemmas int_eval = py_int_def py_int_bytes_def int_of_text_def strip_def str_isspace_def
  bytes_isspace_def unsigned_value_def isdigit_def digit_value_def

lemma below_ten:
  "d < 10 \<Longrightarrow> d \<in> {0, 1, 2, 3, 4, 5, 6, 7, 8, 9::nat}"
  by auto

lemma isdigit_digit_char: "d < 10 \<Longrightarrow> isdigit (digit_char d)"
  by (drule below_ten) (auto simp: isdigit_def digit_char_def)

lemma digit_value_digit_char: "d < 10 \<Longrightarrow> digit_value (digit_char d) = int d"
  by (drule below_ten) (auto simp: digit_value_def digit_char_def)

lemma isdigit_not_space: "isdigit c \<Longrightarrow> \<not> str_isspace c"
  by (auto simp: isdigit_def str_isspace_def)

lemma isdigit_not_sign: "isdigit c \<Longrightarrow> c \<noteq> CHR ''-'' \<and> c \<noteq> CHR ''+''"
  by (auto simp: isdigit_def)

lemma digits_value_all_digits:
  "\<forall>c \<in> set ds. isdigit c \<Longrightarrow>
     digits_value ds acc = Some (foldl (\<lambda>a c. 10 * a + digit_value c) acc ds)"
  by (induction ds arbitrary: acc) simp_all

lemma unsigned_value_all_digits:
  assumes "ds \<noteq> []" and "\<forall>c \<in> set ds. isdigit c"
  shows "unsigned_value ds = Some (foldl (\<lambda>a c. 10 * a + digit_value c) 0 ds)"
  using assms by (cases ds) (simp_all add: unsigned_value_def digits_value_all_digits)

text \<open>The decimal numeral of a natural number: digits only, at least one, with its value.\<close>

lemma str_nat_digits: "c \<in> set (str_nat n) \<Longrightarrow> isdigit c"
proof (induction n arbitrary: c rule: str_nat.induct)
  case (1 n)
  show ?case
  proof (cases "n < 10")
    case True
    with "1.prems" show ?thesis
      by (subst (asm) str_nat.simps) (simp add: isdigit_digit_char)
  next
    case False
    with "1.prems" "1.IH" show ?thesis
      by (subst (asm) str_nat.simps) (auto simp: isdigit_digit_char)
  qed
qed

lemma str_nat_not_Nil: "str_nat n \<noteq> []"
  by (subst str_nat.simps) simp

lemma str_nat_value: "foldl (\<lambda>a c. 10 * a + digit_value c) 0 (str_nat n) = int n"
proof (induction n rule: str_nat.induct)
  case (1 n)
  show ?case
  proof (cases "n < 10")
    case True
    then show ?thesis
      by (subst str_nat.simps) (simp add: digit_value_digit_char)
  next
    case False
    then have "foldl (\<lambda>a c. 10 * a + digit_value c) 0 (str_nat n) =
        10 * int (n div 10) + int (n mod 10)"
      using "1.IH" by (subst str_nat.simps) (simp add: digit_value_digit_char)
    then show ?thesis
      by (simp add: zmod_int zdiv_int)
  qed
qed

lemma unsigned_value_str_nat: "unsigned_value (str_nat n) = Some (int n)"
proof -
  have "\<forall>c \<in> set (str_nat n). isdigit c"
    by (simp add: str_nat_digits)
  with str_nat_not_Nil have "unsigned_value (str_nat n) =
      Some (foldl (\<lambda>a c. 10 * a + digit_value c) 0 (str_nat n))"
    by (rule unsigned_value_all_digits)
  then show ?thesis
    by (simp only: str_nat_value)
qed

lemma str_nat_hd: "isdigit (hd (str_nat n))"
  by (rule str_nat_digits [of _ n]) (simp add: str_nat_not_Nil)

lemma str_nat_last: "isdigit (last (str_nat n))"
  by (rule str_nat_digits [of _ n]) (simp add: str_nat_not_Nil)

lemma strip_unchanged:
  assumes "s \<noteq> []" and "\<not> sp (hd s)" and "\<not> sp (last s)"
  shows "strip sp s = s"
proof -
  from assms(1,2) have "dropWhile sp s = s"
    by (cases s) simp_all
  moreover from assms(1,3) have "dropWhile sp (rev s) = rev s"
    by (cases "rev s") (simp_all add: last_rev [symmetric] hd_rev)
  ultimately show ?thesis
    by (simp add: strip_def)
qed

lemma py_int_str_nat: "py_int (str_nat n) = Some (int n)"
proof -
  have "strip str_isspace (str_nat n) = str_nat n"
    using str_nat_not_Nil str_nat_hd [of n] str_nat_last [of n]
    by (intro strip_unchanged) (simp_all add: isdigit_not_space)
  moreover obtain c cs where s: "str_nat n = c # cs"
    using str_nat_not_Nil [of n] by (cases "str_nat n") auto
  moreover have "isdigit c"
    using str_nat_hd [of n] s by simp
  then have "c \<noteq> CHR ''-''" "c \<noteq> CHR ''+''"
    using isdigit_not_sign by simp_all
  moreover have "unsigned_value (c # cs) = Some (int n)"
    using unsigned_value_str_nat [of n] s by simp
  ultimately show ?thesis
    by (simp add: py_int_def int_of_text_def)
qed

text \<open>\<^verbatim>\<open>int(str(i)) == i\<close> for every integer, negative ones included.\<close>

lemma py_int_py_str: "py_int (py_str i) = Some i"
proof (cases "i < 0")
  case False
  then show ?thesis
    by (simp add: py_str_def py_int_str_nat)
next
  case True
  let ?ds = "str_nat (nat (- i))"
  have "last (CHR ''-'' # ?ds) = last ?ds"
    using str_nat_not_Nil by simp
  then have "\<not> str_isspace (last (CHR ''-'' # ?ds))"
    using str_nat_last [of "nat (- i)"] by (simp add: isdigit_not_space)
  moreover have "\<not> str_isspace (CHR ''-'')"
    by (simp add: str_isspace_def)
  ultimately have "strip str_isspace (CHR ''-'' # ?ds) = CHR ''-'' # ?ds"
    by (intro strip_unchanged) simp_all
  then show ?thesis
    using True by (simp add: py_str_def py_int_def int_of_text_def unsigned_value_str_nat)
qed

lemma py_index_in_range:
  "0 \<le> i \<Longrightarrow> i < int (length xs) \<Longrightarrow> py_index xs i = Some (xs ! nat i)"
  by (simp add: py_index_def)


lemma py_index_out_of_range:
  "int (length xs) \<le> i \<or> i < - int (length xs) \<Longrightarrow> py_index xs i = None"
  by (auto simp: py_index_def Let_def)

lemma find_unique_index:
  assumes "i < length xs" and "P (xs ! i)" and "\<forall>j < length xs. P (xs ! j) \<longrightarrow> j = i"
  shows "find P xs = Some (xs ! i)"
proof -
  have "\<forall>j < i. \<not> P (xs ! j)"
  proof (intro allI impI notI)
    fix j
    assume "j < i" and "P (xs ! j)"
    with assms(1,3) show False
      by (metis less_irrefl less_trans)
  qed
  with assms(1,2) show ?thesis
    unfolding find_Some_iff by blast
qed

section \<open>The receiver lookup, tier by tier\<close>

text \<open>What each tier does in general; the statements about the specification follow.\<close>

lemma resolve_index_hit:
  "py_int token = Some n \<Longrightarrow> py_index infos n = Some info \<Longrightarrow>
     resolve token infos = (Inr (Some info), [])"
  by (simp add: resolve_def)

lemma resolve_index_miss:
  "py_int token = Some n \<Longrightarrow> py_index infos n = None \<Longrightarrow>
     resolve token infos = (Inl TypeError, [])"
  by (simp add: resolve_def try_id_def)

lemma resolve_no_match:
  assumes "py_int token = None"
    and "length token = 12 \<longrightarrow> (\<forall>info \<in> set infos. id_field info \<noteq> token)"
    and "\<forall>info \<in> set infos. name info \<noteq> Some token"
  shows "resolve token infos = (Inr None, [Error_receiver_not_exist])"
proof -
  have "find (\<lambda>info. map_option Str (name info) = Some (Str token)) infos = None"
    using assms(3) by (auto simp: find_None_iff)
  then have "try_hostname (Str token) infos = (Inr None, [Error_receiver_not_exist])"
    by (simp add: try_hostname_def)
  moreover have "length token = 12 \<Longrightarrow>
      find (\<lambda>info. Str (id_field info) = Str token) infos = None"
    using assms(2) by (simp add: find_None_iff)
  ultimately have "try_id (Str token) infos = (Inr None, [Error_receiver_not_exist])"
    by (simp add: try_id_def)
  with assms(1) show ?thesis
    by (simp add: resolve_def)
qed

lemma get_receiver_info_loaded:
  "get_receiver_info (Some f) now token =
     (fst (resolve token (infos_of f)),
      (if now - mtime f > 60 then [Warning_old_report (now - mtime f)] else []) @
      snd (resolve token (infos_of f)))"
  by (simp add: get_receiver_info_def Let_def split: prod.splits)

text \<open>
  C1. For a report \<open>R\<close> and an integer \<open>i\<close> with \<open>0 \<le> i < len(R)\<close>, the token
  \<^verbatim>\<open>str(i)\<close> resolves to \<open>R[i]\<close>: the tiers return it, and so does
  \<^verbatim>\<open>_get_receiver_info\<close> on a file that holds \<open>R\<close>, whatever its age.
\<close>

theorem index_tier_returns_element:
  assumes "0 \<le> i" and "i < int (length R)"
  shows "resolve (py_str i) R = (Inr (Some (R ! nat i)), []) \<and>
    fst (get_receiver_info (Some \<lparr>mtime = m, infos_of = R\<rparr>) now (py_str i)) =
      Inr (Some (R ! nat i))"
proof -
  have "resolve (py_str i) R = (Inr (Some (R ! nat i)), [])"
    using assms by (simp add: resolve_index_hit py_int_py_str py_index_in_range)
  then show ?thesis
    by (simp add: get_receiver_info_loaded)
qed

theorem index_tier_returns_element_witness:
  "(0::int) \<le> 1 \<and> 1 < int (length [bob, bob\<lparr>name := None\<rparr>]) \<and>
   py_str 1 = ''1'' \<and>
   resolve ''1'' [bob, bob\<lparr>name := None\<rparr>] = (Inr (Some (bob\<lparr>name := None\<rparr>)), [])"
  using index_tier_returns_element [of 1 "[bob, bob\<lparr>name := None\<rparr>]" 0 0]
  by (simp add: py_str_def str_nat.simps digit_char_def)

text \<open>
  C2, on the sources as they are. The report holds one record and the token is
  \<^verbatim>\<open>"5"\<close>: it parses as an integer, the subscript raises \<^verbatim>\<open>IndexError\<close>, and
  the second tier then calls \<^verbatim>\<open>len\<close> on the integer that line 362 stored in
  \<^verbatim>\<open>self.receiver\<close>. \<^verbatim>\<open>TypeError\<close> escapes; no message is logged.
\<close>

theorem out_of_range_index_raises_TypeError:
  "get_receiver_info (Some \<lparr>mtime = 0, infos_of = [bob]\<rparr>) 0 ''5'' = (Inl TypeError, [])"
  by (simp add: get_receiver_info_loaded resolve_def try_id_def py_index_def int_eval)

text \<open>
  C3. A token of twelve characters that is no integer, with exactly one record of the
  report whose identifier equals it, resolves to that record.
\<close>

theorem id_tier_unique_match:
  assumes "length t = 12" and "py_int t = None"
    and "i < length R" and "id_field (R ! i) = t"
    and "\<forall>j < length R. id_field (R ! j) = t \<longrightarrow> j = i"
  shows "resolve t R = (Inr (Some (R ! i)), [])"
proof -
  have "find (\<lambda>info. Str (id_field info) = Str t) R = Some (R ! i)"
  proof (rule find_unique_index)
    show "i < length R"
      by fact
    show "Str (id_field (R ! i)) = Str t"
      using assms(4) by simp
    show "\<forall>j < length R. Str (id_field (R ! j)) = Str t \<longrightarrow> j = i"
      using assms(5) by blast
  qed
  then have "try_id (Str t) R = (Inr (Some (R ! i)), [])"
    using assms(1) by (simp add: try_id_def)
  then show ?thesis
    using assms(2) by (simp add: resolve_def)
qed

theorem id_tier_unique_match_witness:
  "length ''aa11bb22cc33'' = 12 \<and> py_int ''aa11bb22cc33'' = None \<and>
   resolve ''aa11bb22cc33'' [bob\<lparr>id_field := ''000000000000''\<rparr>, bob] = (Inr (Some bob), [])"
  using id_tier_unique_match [of "''aa11bb22cc33''" 1 "[bob\<lparr>id_field := ''000000000000''\<rparr>, bob]"]
  by (simp add: bob_def int_eval less_Suc_eq)

text \<open>
  C8. A report file modified more than sixty seconds ago is loaded all the same: the
  lookup returns what it returns on the same file read within the minute, and logs the
  same messages after one staleness warning.
\<close>

theorem stale_report_only_warns:
  assumes "60 < now - mtime f" and "now' - mtime f \<le> 60"
  shows "fst (get_receiver_info (Some f) now token) = fst (get_receiver_info (Some f) now' token) \<and>
    snd (get_receiver_info (Some f) now token) =
      Warning_old_report (now - mtime f) # snd (get_receiver_info (Some f) now' token) \<and>
    fst (get_receiver_info (Some f) now token) = fst (resolve token (infos_of f))"
  using assms by (simp add: get_receiver_info_loaded)

theorem stale_report_only_warns_witness:
  "(60::real) < 1061 - mtime \<lparr>mtime = 1000, infos_of = [bob]\<rparr> \<and>
   (1000::real) - mtime \<lparr>mtime = 1000, infos_of = [bob]\<rparr> \<le> 60 \<and>
   get_receiver_info (Some \<lparr>mtime = 1000, infos_of = [bob]\<rparr>) 1061 ''Bob'' =
     (Inr (Some bob), [Warning_old_report 61]) \<and>
   get_receiver_info (Some \<lparr>mtime = 1000, infos_of = [bob]\<rparr>) 1000 ''Bob'' =
     (Inr (Some bob), [])"
  using stale_report_only_warns [of 1061 "\<lparr>mtime = 1000, infos_of = [bob]\<rparr>" 1000 "''Bob''"]
  by (simp add: get_receiver_info_loaded resolve_def try_id_def try_hostname_def bob_def int_eval)

text \<open>
  C9. On the report that holds the one record of Bob, the tokens \<^verbatim>\<open>"0"\<close>,
  \<^verbatim>\<open>"aa11bb22cc33"\<close> and \<^verbatim>\<open>"Bob"\<close> all resolve to that record.
\<close>

theorem bob_three_tiers_agree:
  "resolve ''0'' [bob] = (Inr (Some bob), []) \<and>
   resolve ''aa11bb22cc33'' [bob] = (Inr (Some bob), []) \<and>
   resolve ''Bob'' [bob] = (Inr (Some bob), [])"
  by (simp add: resolve_def try_id_def try_hostname_def py_index_def bob_def int_eval)



section \<open>The peer probe, statement by statement\<close>

lemmas probe_eval = send_discover_def probe_def get_flags_def ask_discover_def found_message_def
  answering_def silent_def fresh_cli_def peer_A_def peer_B_def peer_C_def no_address_def Let_def

text \<open>
  The thread of the interleaved model, scheduled alone for its six statements, does what
  \<^const>\<open>send_discover\<close> does.
\<close>

lemma lone_thread_is_send_discover:
  "run SDM net [0, 0, 0, 0, 0, 0] (launch [info] st) =
     \<lparr>attrs = snd (send_discover SDM net info st), lock = False,
      threads = [case fst (send_discover SDM net info st) of
                   None \<Rightarrow> Returned | Some e \<Rightarrow> Died e]\<rparr>"
proof -
  obtain r st1 where p: "probe SDM net info st = (r, st1)"
    by (cases "probe SDM net info st")
  show ?thesis
    by (cases r) (simp_all add: p run_def sched_step_def launch_def send_discover_def Let_def)
qed

text \<open>A record with an address and readable flags always yields one new entry.\<close>

lemma send_discover_probed:
  assumes "parsed_addresses info = addr # rest" and "get_flags SDM info = Inr flgs"
  shows "send_discover SDM net info st =
    (let identifier = takeWhile (\<lambda>c. c \<noteq> CHR ''.'') (info_name info);
         receiver_name = fst (ask_discover SDM net (addr, info_port info) flgs st);
         node_info = \<lparr>name = receiver_name, address = addr, port = info_port info,
           id_field = identifier, flags = flgs, discoverable = (receiver_name \<noteq> None)\<rparr>
     in (None,
         \<lparr>discover = discover st @ [node_info],
          logged = logged st @
            [Debug_service_found (info_server info) addr (info_port info) identifier,
             found_message (length (discover st)) node_info],
          sent = sent (snd (ask_discover SDM net (addr, info_port info) flgs st))\<rparr>))"
  using assms
  by (simp add: send_discover_def probe_def ask_discover_def Let_def)




text \<open>
  C5 as stated fails for a service record that has neither a \<^verbatim>\<open>flags\<close> property
  nor an address: line 235 raises \<^verbatim>\<open>IndexError\<close> and the probe returns before the
  flags are read, so no request is sent.
\<close>

theorem no_flags_no_address_no_request:
  "info_properties no_address ''flags'' = None \<and>
   sent (snd (send_discover 128 (answering (Some ''Bob'')) no_address fresh_cli)) = [] \<and>
   discover (snd (send_discover 128 (answering (Some ''Bob'')) no_address fresh_cli)) = []"
  by (simp add: probe_eval)

text \<open>
  C5, amended. Let the service record have an address. Without a \<^verbatim>\<open>flags\<close>
  property, and with a flag constant that is not zero, the probe takes the constant for
  the flags and sends the Discover request. With a \<^verbatim>\<open>flags\<close> value whose bit is
  clear no request is sent and the entry has no name.
\<close>

theorem absent_flags_probed_clear_bit_skipped:
  assumes "parsed_addresses info = addr # rest"
  shows "(info_properties info ''flags'' = None \<and> SDM \<noteq> 0 \<longrightarrow>
       flags (last (discover (snd (send_discover SDM net info st)))) = SDM \<and>
       sent (snd (send_discover SDM net info st)) = sent st @ [(addr, info_port info)]) \<and>
    (info_properties info ''flags'' = Some v \<and> py_int_bytes v = Some n \<and> n AND SDM = 0 \<longrightarrow>
       sent (snd (send_discover SDM net info st)) = sent st \<and>
       name (last (discover (snd (send_discover SDM net info st)))) = None \<and>
       \<not> discoverable (last (discover (snd (send_discover SDM net info st)))))"
proof (intro conjI impI)
  assume a: "info_properties info ''flags'' = None \<and> SDM \<noteq> 0"
  then have g: "get_flags SDM info = Inr SDM"
    by (simp add: get_flags_def)
  show "flags (last (discover (snd (send_discover SDM net info st)))) = SDM"
    by (simp add: send_discover_probed [OF assms g] Let_def)
  show "sent (snd (send_discover SDM net info st)) = sent st @ [(addr, info_port info)]"
    using a by (simp add: send_discover_probed [OF assms g] ask_discover_def Let_def)
next
  assume a: "info_properties info ''flags'' = Some v \<and> py_int_bytes v = Some n \<and> n AND SDM = 0"
  then have g: "get_flags SDM info = Inr n"
    by (simp add: get_flags_def)
  show "sent (snd (send_discover SDM net info st)) = sent st"
    using a by (simp add: send_discover_probed [OF assms g] ask_discover_def Let_def)
  show "name (last (discover (snd (send_discover SDM net info st)))) = None"
    using a by (simp add: send_discover_probed [OF assms g] ask_discover_def Let_def)
  show "\<not> discoverable (last (discover (snd (send_discover SDM net info st))))"
    using a by (simp add: send_discover_probed [OF assms g] ask_discover_def Let_def)
qed

theorem absent_flags_probed_clear_bit_skipped_witness:
  "parsed_addresses peer_B = ''fe80::2'' # [] \<and>
   info_properties peer_B ''flags'' = None \<and> (128::int) \<noteq> 0 \<and>
   sent (snd (send_discover 128 silent peer_B fresh_cli)) = [(''fe80::2'', 8770)] \<and>
   parsed_addresses peer_A = ''fe80::1'' # [] \<and>
   info_properties peer_A ''flags'' = Some ''1'' \<and> py_int_bytes ''1'' = Some 1 \<and>
   (1::int) AND 128 = 0 \<and>
   sent (snd (send_discover 128 (answering (Some ''Bob'')) peer_A fresh_cli)) = [] \<and>
   name (last (discover (snd (send_discover 128 (answering (Some ''Bob'')) peer_A fresh_cli)))) =
     None"
  using absent_flags_probed_clear_bit_skipped
      [of peer_B "''fe80::2''" "[]" 128 silent fresh_cli]
    absent_flags_probed_clear_bit_skipped
      [of peer_A "''fe80::1''" "[]" 128 "answering (Some ''Bob'')" fresh_cli "''1''" 1]
  by (simp add: probe_eval int_eval)

text \<open>
  What holds under every schedule: the append of line 273 is never lost. When all
  threads have returned, the catalog has grown by one entry for each service record.
\<close>

lemma filter_update_length:
  "i < length xs \<Longrightarrow>
     length (filter P (xs[i := y])) + (if P (xs ! i) then 1 else 0) =
     length (filter P xs) + (if P y then 1 else 0)"
proof (induction xs arbitrary: i)
  case Nil
  then show ?case by simp
next
  case (Cons x xs)
  then show ?case
    by (cases i) auto
qed

lemma probe_through:
  assumes "probes_through SDM (At_start info)"
  shows "\<exists>node_info st1. probe SDM net info st = (Probed node_info, st1) \<and>
    discover st1 = discover st"
  using assms
  by (auto simp: probe_def ask_discover_def Let_def split: list.splits sum.splits)

lemma sched_step_counted:
  assumes "counted SDM n0 s"
  shows "counted SDM n0 (sched_step SDM net s i)"
proof (cases "i < length (threads s)")
  case False
  with assms show ?thesis
    by (simp add: sched_step_def)
next
  case True
  from assms have wf: "list_all (probes_through SDM) (threads s)"
    and len: "length (discover (attrs s)) = n0 + length (filter appended (threads s))"
    by (simp_all add: counted_def)
  from wf True have wfi: "probes_through SDM (threads s ! i)"
    by (simp add: list_all_length)
  have upd: "\<And>p. probes_through SDM p \<Longrightarrow> list_all (probes_through SDM) ((threads s)[i := p])"
    using wf by (auto simp: list_all_iff dest: set_update_subset_insert [THEN subsetD])
  note fl = filter_update_length [OF True, of appended]
  show ?thesis
  proof (cases "threads s ! i")
    case (At_start info)
    with wfi have "probes_through SDM (At_start info)"
      by simp
    from probe_through [OF this, of net "attrs s"] obtain node_info st1
      where p: "probe SDM net info (attrs s) = (Probed node_info, st1)"
        and d: "discover st1 = discover (attrs s)"
      by blast
    show ?thesis
      using True At_start p d len upd [of "At_index node_info"] fl [of "At_index node_info"]
      by (simp add: sched_step_def counted_def)
  next
    case (At_index node_info)
    then show ?thesis
      using True len upd [of "At_acquire (length (discover (attrs s))) node_info"]
        fl [of "At_acquire (length (discover (attrs s))) node_info"]
      by (simp add: sched_step_def counted_def)
  next
    case (At_acquire index node_info)
    then show ?thesis
      using True assms len upd [of "At_append index node_info"] fl [of "At_append index node_info"]
      by (simp add: sched_step_def counted_def)
  next
    case (At_append index node_info)
    then show ?thesis
      using True len upd [of "At_log index node_info"] fl [of "At_log index node_info"]
      by (simp add: sched_step_def counted_def)
  next
    case (At_log index node_info)
    then show ?thesis
      using True len upd [of At_release] fl [of At_release]
      by (simp add: sched_step_def counted_def)
  next
    case At_release
    then show ?thesis
      using True len upd [of Returned] fl [of Returned]
      by (simp add: sched_step_def counted_def)
  next
    case Returned
    with assms True show ?thesis
      by (simp add: sched_step_def)
  next
    case (Died e)
    with assms True show ?thesis
      by (simp add: sched_step_def)
  qed
qed

lemma run_counted: "counted SDM n0 s \<Longrightarrow> counted SDM n0 (run SDM net schedule s)"
  unfolding run_def
  by (induction schedule arbitrary: s) (simp_all add: sched_step_counted)

lemma sched_step_threads_length: "length (threads (sched_step SDM net s i)) = length (threads s)"
  by (simp add: sched_step_def split: option.splits)

lemma run_threads_length: "length (threads (run SDM net schedule s)) = length (threads s)"
  unfolding run_def
  by (induction schedule arbitrary: s) (simp_all add: sched_step_threads_length)

lemma filter_all: "list_all P xs \<Longrightarrow> filter P xs = xs"
  by (induction xs) simp_all

lemma finished_appended: "finished p \<Longrightarrow> appended p"
  by (cases p) simp_all

lemma every_finished_probe_is_in_the_catalog:
  assumes "list_all (\<lambda>info. probes_through SDM (At_start info)) infos"
    and "list_all finished (threads (run SDM net schedule (launch infos st)))"
  shows "length (discover (attrs (run SDM net schedule (launch infos st)))) =
    length (discover st) + length infos"
proof -
  let ?s = "run SDM net schedule (launch infos st)"
  have "filter appended (map At_start infos) = []"
    by (induction infos) simp_all
  with assms(1) have "counted SDM (length (discover st)) (launch infos st)"
    by (simp add: counted_def launch_def list_all_iff)
  then have "counted SDM (length (discover st)) ?s"
    by (rule run_counted)
  moreover have "list_all appended (threads ?s)"
    using assms(2) by (auto simp: list_all_iff finished_appended)
  then have "filter appended (threads ?s) = threads ?s"
    by (rule filter_all)
  moreover have "length (threads ?s) = length infos"
    by (simp add: run_threads_length launch_def)
  ultimately show ?thesis
    by (simp add: counted_def)
qed

text \<open>
  C6, on the sources as they are. Two service records arrive and both peers answer.
  Each thread executes line 263 while the catalog is still empty, and only then do they
  take the lock in turn. Both threads return, the catalog holds both entries, and both
  \<^verbatim>\<open>Found index\<close> lines say 0.
\<close>

theorem two_probes_report_index_zero_twice:
  "list_all finished (threads (run 128 (answering (Some ''Bob'')) both_read_first
     (launch [peer_B, peer_C] fresh_cli))) \<and>
   map id_field (discover (attrs (run 128 (answering (Some ''Bob'')) both_read_first
     (launch [peer_B, peer_C] fresh_cli)))) = [''bbbbbbbbbbbb'', ''cccccccccccc''] \<and>
   reported_indices (logged (attrs (run 128 (answering (Some ''Bob'')) both_read_first
     (launch [peer_B, peer_C] fresh_cli)))) = [0, 0]"
  by code_simp

text \<open>
  When the second thread starts only after the first has returned, the two lines report
  0 and 1.
\<close>

lemma one_after_the_other_reports_0_1:
  "reported_indices (logged (attrs (run 128 (answering (Some ''Bob''))
     [0, 0, 0, 0, 0, 0, 1, 1, 1, 1, 1, 1] (launch [peer_B, peer_C] fresh_cli)))) = [0, 1]"
  by code_simp

text \<open>
  C7. A service record without an address makes the probe log a warning and return: no
  exception, no entry, no request, and the thread that runs it ends at its first step
  without touching the lock.
\<close>

theorem missing_address_dropped:
  assumes "parsed_addresses info = []"
  shows "send_discover SDM net info st =
      (None, st\<lparr>logged := logged st @ [Warning_missing_address info]\<rparr>) \<and>
    discover (snd (send_discover SDM net info st)) = discover st \<and>
    sent (snd (send_discover SDM net info st)) = sent st \<and>
    thread_step SDM net (At_start info) (st, lk) =
      Some (Returned, st\<lparr>logged := logged st @ [Warning_missing_address info]\<rparr>, lk)"
  using assms by (simp add: send_discover_def probe_def)

theorem missing_address_dropped_witness:
  "parsed_addresses no_address = [] \<and>
   send_discover 128 (answering (Some ''Bob'')) no_address fresh_cli =
     (None, \<lparr>discover = [], logged = [Warning_missing_address no_address], sent = []\<rparr>)"
  using missing_address_dropped [of no_address 128 "answering (Some ''Bob'')" fresh_cli]
  by (simp add: no_address_def fresh_cli_def)

end
